theory Spec2Isabelle
  imports Main
begin

section \<open>The dispatch proxy handler of api/refresh.js\<close>

text \<open>
  The repository's only program is the asynchronous function \<open>handler(req, res)\<close> of
  \<^verbatim>\<open>api/refresh.js\<close>. It mutates the response object \<open>res\<close>, reads the process
  environment and calls \<open>fetch\<close> at most once. The embedding passes the response object
  and the network explicitly: \<open>handler\<close> takes both and returns both, updated.
\<close>

subsection \<open>JavaScript values the handler builds\<close>

text \<open>
  The object literals handed to \<open>res.json\<close> and to \<open>JSON.stringify\<close> hold strings
  and the boolean \<open>true\<close> only. An object is the list of its properties in the order of
  the literal.
\<close>

datatype json = JString string | JBool bool | JObject "(string \<times> json) list"

text \<open>
  \<open>JSON.stringify\<close> on these values. A string is quoted as ECMAScript's QuoteJSONString
  does it: the two-character escapes for backspace, tab, line feed, form feed, carriage
  return, the double quote and the backslash, a \<open>\u00XX\<close> escape (lower-case hexadecimal)
  for every other character below 0x20, and every other character as it is.
\<close>

definition hex_digit :: "nat \<Rightarrow> char" where
  "hex_digit n = (if n < 10 then char_of (48 + n) else char_of (87 + n))"

definition quote_char :: "char \<Rightarrow> string" where
  "quote_char c =
     (if c = CHR 0x08 then [CHR 0x5C, CHR ''b'']
      else if c = CHR 0x09 then [CHR 0x5C, CHR ''t'']
      else if c = CHR 0x0A then [CHR 0x5C, CHR ''n'']
      else if c = CHR 0x0C then [CHR 0x5C, CHR ''f'']
      else if c = CHR 0x0D then [CHR 0x5C, CHR ''r'']
      else if c = CHR 0x22 then [CHR 0x5C, CHR 0x22]
      else if c = CHR 0x5C then [CHR 0x5C, CHR 0x5C]
      else if (of_char c :: nat) < 32
        then [CHR 0x5C, CHR ''u'', CHR ''0'', CHR ''0'',
              hex_digit (of_char c div 16), hex_digit (of_char c mod 16)]
      else [c])"

definition quote_string :: "string \<Rightarrow> string" where
  "quote_string s = [CHR 0x22] @ concat (map quote_char s) @ [CHR 0x22]"

fun JSON_stringify :: "json \<Rightarrow> string"
  and stringify_members :: "(string \<times> json) list \<Rightarrow> string" where
  "JSON_stringify (JString s) = quote_string s"
| "JSON_stringify (JBool b) = (if b then ''true'' else ''false'')"
| "JSON_stringify (JObject ps) = ''{'' @ stringify_members ps @ ''}''"
| "stringify_members [] = []"
| "stringify_members [(k, v)] = quote_string k @ '':'' @ JSON_stringify v"
| "stringify_members ((k, v) # p # ps) =
     quote_string k @ '':'' @ JSON_stringify v @ '','' @ stringify_members (p # ps)"

text \<open>
  A thrown value. Every exception the handler can meet comes out of \<open>fetch\<close> or out of
  \<open>response.text()\<close>; both reject with an \<open>Error\<close> object, of which the handler reads
  the \<open>message\<close> only.
\<close>

datatype js_error = Error (message: string)

subsection \<open>The inbound request and the response object\<close>

record request =
  req_method :: string
  req_headers :: "(string \<times> string) list"

text \<open>
  The response object \<open>res\<close> of the host runtime, as far as the handler drives it: the
  headers set by \<open>res.setHeader\<close>, the status code set by \<open>res.status\<close>, the value
  sent by \<open>res.json\<close> (nothing is sent by \<open>res.end()\<close>), and whether the response has
  been ended. The runtime's methods are not part of the repository; each one records what
  the handler passes to it.
\<close>

record server_response =
  statusCode :: nat
  res_headers :: "string \<rightharpoonup> string"
  body :: "json option"
  writableEnded :: bool

definition fresh_response :: server_response where
  "fresh_response =
     \<lparr>statusCode = 200, res_headers = Map.empty, body = None, writableEnded = False\<rparr>"

definition setHeader :: "string \<Rightarrow> string \<Rightarrow> server_response \<Rightarrow> server_response" where
  "setHeader name v res = res\<lparr>res_headers := (res_headers res)(name \<mapsto> v)\<rparr>"

definition res_status :: "nat \<Rightarrow> server_response \<Rightarrow> server_response" where
  "res_status code res = res\<lparr>statusCode := code\<rparr>"

definition res_json :: "json \<Rightarrow> server_response \<Rightarrow> server_response" where
  "res_json v res = res\<lparr>body := Some v, writableEnded := True\<rparr>"

definition res_end :: "server_response \<Rightarrow> server_response" where
  "res_end res = res\<lparr>writableEnded := True\<rparr>"

subsection \<open>The process environment and the network\<close>

text \<open>\<open>process.env.GITHUB_TOKEN\<close> is \<open>undefined\<close> (here \<open>None\<close>) or a string.\<close>

record env =
  GITHUB_TOKEN :: "string option"

text \<open>The second argument of \<open>fetch\<close>, and one outbound call: the URL with that argument.\<close>

record fetch_init =
  init_method :: string
  init_headers :: "(string \<times> string) list"
  init_body :: string

type_synonym fetch_call = "string \<times> fetch_init"

text \<open>
  What the awaited \<open>fetch\<close> gives: it rejects with an error (a transport failure, no
  response received), or it resolves with the upstream's response. Of that response the
  handler reads \<open>status\<close> and awaits \<open>text()\<close>, which gives the body text or rejects.
\<close>

datatype fetch_response = Response (status: nat) (text_of: "js_error + string")

datatype fetch_outcome = Rejected js_error | Resolved fetch_response

text \<open>
  The network: the calls issued so far, oldest first, and the upstream's behaviour, which
  may depend on how many calls came before and on the call itself.
\<close>

record network =
  sent :: "fetch_call list"
  upstream :: "nat \<Rightarrow> fetch_call \<Rightarrow> fetch_outcome"

definition fetch :: "string \<Rightarrow> fetch_init \<Rightarrow> network \<Rightarrow> fetch_outcome \<times> network" where
  "fetch url init net =
     (upstream net (length (sent net)) (url, init), net\<lparr>sent := sent net @ [(url, init)]\<rparr>)"

subsection \<open>The handler\<close>

definition DISPATCH_URL :: string where
  "DISPATCH_URL =
     ''https://api.github.com/repos/mclendaniel/chess-dashboard/actions/workflows/update-dashboard.yml/dispatches''"

definition dispatch_init :: "string \<Rightarrow> fetch_init" where
  "dispatch_init token =
     \<lparr>init_method = ''POST'',
      init_headers =
        [(''Authorization'', ''Bearer '' @ token),
         (''Accept'', ''application/vnd.github.v3+json''),
         (''Content-Type'', ''application/json'')],
      init_body = JSON_stringify (JObject [(''ref'', JString ''main'')])\<rparr>"

text \<open>
  The body of the \<open>try\<close> block (lines 21 to 39). Its first component is \<open>None\<close> when the
  block returns and \<open>Some e\<close> when it throws \<open>e\<close>; the response object and the network
  are returned as the block leaves them in either case.
\<close>

definition try_block ::
  "string \<Rightarrow> server_response \<Rightarrow> network \<Rightarrow> js_error option \<times> server_response \<times> network" where
  "try_block token res net =
     (case fetch DISPATCH_URL (dispatch_init token) net of
        (Rejected e, net') \<Rightarrow> (Some e, res, net')
      | (Resolved response, net') \<Rightarrow>
          if status response = 204 then
            (None,
             res_json (JObject [(''success'', JBool True),
                                (''message'', JString ''Dashboard update triggered!'')])
               (res_status 200 res),
             net')
          else
            (case text_of response of
               Inl e \<Rightarrow> (Some e, res, net')
             | Inr error \<Rightarrow>
                 (None,
                  res_json (JObject [(''error'', JString (''GitHub API error: '' @ error))])
                    (res_status (status response) res),
                  net')))"

text \<open>
  The \<open>try\<close> statement with its \<open>catch\<close> clause (lines 20 to 42): a thrown error becomes
  the 500 response carrying its message.
\<close>

definition try_catch :: "string \<Rightarrow> server_response \<Rightarrow> network \<Rightarrow> server_response \<times> network" where
  "try_catch token res net =
     (case try_block token res net of
        (None, res', net') \<Rightarrow> (res', net')
      | (Some error, res', net') \<Rightarrow>
          (res_json (JObject [(''error'', JString (message error))]) (res_status 500 res'),
           net'))"

text \<open>
  The handler. The test \<open>!token\<close> holds of \<open>undefined\<close> and of the empty string.
\<close>

definition handler ::
  "env \<Rightarrow> request \<Rightarrow> server_response \<Rightarrow> network \<Rightarrow> server_response \<times> network" where
  "handler process_env req res0 net =
     (let res1 = setHeader ''Access-Control-Allow-Origin'' ''*'' res0;
          res2 = setHeader ''Access-Control-Allow-Methods'' ''POST, OPTIONS'' res1;
          res = setHeader ''Access-Control-Allow-Headers'' ''Content-Type'' res2
      in
        if req_method req = ''OPTIONS'' then (res_end (res_status 200 res), net)
        else if req_method req \<noteq> ''POST'' then
          (res_json (JObject [(''error'', JString ''Method not allowed'')])
             (res_status 405 res), net)
        else
          (case GITHUB_TOKEN process_env of
             None \<Rightarrow>
               (res_json (JObject [(''error'', JString ''GitHub token not configured'')])
                  (res_status 500 res), net)
           | Some token \<Rightarrow>
               if token = [] then
                 (res_json (JObject [(''error'', JString ''GitHub token not configured'')])
                    (res_status 500 res), net)
               else try_catch token res net))"

subsection \<open>Auxiliary definitions for the statements\<close>

text \<open>The response object after the three \<open>setHeader\<close> calls of lines 3 to 5.\<close>

definition cors :: "server_response \<Rightarrow> server_response" where
  "cors res =
     setHeader ''Access-Control-Allow-Headers'' ''Content-Type''
       (setHeader ''Access-Control-Allow-Methods'' ''POST, OPTIONS''
         (setHeader ''Access-Control-Allow-Origin'' ''*'' res))"

text \<open>
  The invocations that get as far as the \<open>try\<close> statement: the method is POST and the
  token is a non-empty string.
\<close>

definition dispatches :: "env \<Rightarrow> request \<Rightarrow> bool" where
  "dispatches process_env req =
     (req_method req = ''POST'' \<and>
      (case GITHUB_TOKEN process_env of None \<Rightarrow> False | Some token \<Rightarrow> token \<noteq> []))"

text \<open>
  Example networks for the concrete instances: nothing sent yet, and an upstream that
  answers every call with the same outcome.
\<close>

definition upstream_always :: "fetch_outcome \<Rightarrow> nat \<Rightarrow> fetch_call \<Rightarrow> fetch_outcome" where
  "upstream_always outcome n call = outcome"

definition idle_network :: "fetch_outcome \<Rightarrow> network" where
  "idle_network outcome = \<lparr>sent = [], upstream = upstream_always outcome\<rparr>"

section \<open>Properties of the handler\<close>

subsection \<open>The branches of the handler\<close>

lemmas res_defs = setHeader_def res_status_def res_json_def res_end_def

lemma handler_OPTIONS:
  "req_method req = ''OPTIONS'' \<Longrightarrow>
   handler process_env req res net = (res_end (res_status 200 (cors res)), net)"
  by (simp add: handler_def cors_def Let_def)

lemma handler_not_allowed:
  "req_method req \<noteq> ''OPTIONS'' \<Longrightarrow> req_method req \<noteq> ''POST'' \<Longrightarrow>
   handler process_env req res net =
     (res_json (JObject [(''error'', JString ''Method not allowed'')])
        (res_status 405 (cors res)), net)"
  by (simp add: handler_def cors_def Let_def)

lemma handler_no_token:
  "req_method req = ''POST'' \<Longrightarrow>
   GITHUB_TOKEN process_env = None \<or> GITHUB_TOKEN process_env = Some [] \<Longrightarrow>
   handler process_env req res net =
     (res_json (JObject [(''error'', JString ''GitHub token not configured'')])
        (res_status 500 (cors res)), net)"
  by (auto simp add: handler_def cors_def Let_def)

lemma handler_POST:
  "req_method req = ''POST'' \<Longrightarrow> GITHUB_TOKEN process_env = Some token \<Longrightarrow> token \<noteq> [] \<Longrightarrow>
   handler process_env req res net = try_catch token (cors res) net"
  by (simp add: handler_def cors_def Let_def)

lemma handler_cases:
  "handler process_env req res net = (res_end (res_status 200 (cors res)), net) \<or>
   handler process_env req res net =
     (res_json (JObject [(''error'', JString ''Method not allowed'')])
        (res_status 405 (cors res)), net) \<or>
   handler process_env req res net =
     (res_json (JObject [(''error'', JString ''GitHub token not configured'')])
        (res_status 500 (cors res)), net) \<or>
   (\<exists>token. handler process_env req res net = try_catch token (cors res) net)"
  by (auto simp add: handler_def cors_def Let_def split: option.splits)

subsection \<open>The try statement\<close>

lemma try_catch_204:
  "fst (fetch DISPATCH_URL (dispatch_init token) net) = Resolved response \<Longrightarrow>
   status response = 204 \<Longrightarrow>
   fst (try_catch token res net) =
     res_json (JObject [(''success'', JBool True),
                        (''message'', JString ''Dashboard update triggered!'')])
       (res_status 200 res)"
  by (simp add: try_catch_def try_block_def fetch_def)

lemma try_catch_other:
  "fst (fetch DISPATCH_URL (dispatch_init token) net) = Resolved response \<Longrightarrow>
   status response \<noteq> 204 \<Longrightarrow> text_of response = Inr error \<Longrightarrow>
   fst (try_catch token res net) =
     res_json (JObject [(''error'', JString (''GitHub API error: '' @ error))])
       (res_status (status response) res)"
  by (simp add: try_catch_def try_block_def fetch_def)

lemma try_catch_rejected:
  "fst (fetch DISPATCH_URL (dispatch_init token) net) = Rejected e \<Longrightarrow>
   fst (try_catch token res net) =
     res_json (JObject [(''error'', JString (message e))]) (res_status 500 res)"
  by (simp add: try_catch_def try_block_def fetch_def)

lemma try_catch_network:
  "snd (try_catch token res net) =
     net\<lparr>sent := sent net @ [(DISPATCH_URL, dispatch_init token)]\<rparr>"
  by (simp add: try_catch_def try_block_def fetch_def
      split: fetch_outcome.splits sum.splits option.splits)

lemma try_catch_headers:
  "res_headers (fst (try_catch token res net)) = res_headers res"
  by (simp add: try_catch_def try_block_def fetch_def res_defs
      split: fetch_outcome.splits sum.splits option.splits)

lemma handler_headers:
  "res_headers (fst (handler process_env req res net)) = res_headers (cors res)"
  using handler_cases [of process_env req res net]
  by (auto simp add: try_catch_headers) (simp_all add: res_defs)

lemma handler_sent_length:
  "length (sent (snd (handler process_env req res net))) =
     length (sent net) + (if dispatches process_env req then 1 else 0)"
  by (simp add: handler_def Let_def dispatches_def try_catch_network split: option.splits)

lemma handler_upstream:
  "upstream (snd (handler process_env req res net)) = upstream net"
  by (simp add: handler_def Let_def try_catch_network split: option.splits)

text \<open>The text that \<open>JSON.stringify({ ref: 'main' })\<close> gives (\<open>CHR 0x22\<close> is the double quote).\<close>

lemma dispatch_body_text:
  "JSON_stringify (JObject [(''ref'', JString ''main'')]) =
     ''{'' @ [CHR 0x22] @ ''ref'' @ [CHR 0x22] @ '':'' @ [CHR 0x22] @ ''main'' @ [CHR 0x22] @ ''}''"
  by (simp add: quote_string_def quote_char_def)

section \<open>The claims\<close>

text \<open>
  C1. For a POST request with a configured (non-empty) token, when the upstream answers the
  workflow-dispatch call with status exactly 204, the handler responds with status 200 and
  the body \<open>{success: true, message: "Dashboard update triggered!"}\<close>.
\<close>

theorem upstream_204_success:
  assumes "req_method req = ''POST''"
    and "GITHUB_TOKEN process_env = Some token"
    and "token \<noteq> []"
    and "fst (fetch DISPATCH_URL (dispatch_init token) net) = Resolved response"
    and "status response = 204"
  shows "statusCode (fst (handler process_env req res net)) = 200 \<and>
         body (fst (handler process_env req res net)) =
           Some (JObject [(''success'', JBool True),
                          (''message'', JString ''Dashboard update triggered!'')])"
  using assms by (simp add: handler_POST try_catch_204 res_defs)

theorem upstream_204_success_witness:
  "req_method \<lparr>req_method = ''POST'', req_headers = []\<rparr> = ''POST'' \<and>
   GITHUB_TOKEN \<lparr>GITHUB_TOKEN = Some ''ghp_token''\<rparr> = Some ''ghp_token'' \<and>
   ''ghp_token'' \<noteq> [] \<and>
   fst (fetch DISPATCH_URL (dispatch_init ''ghp_token'')
          (idle_network (Resolved (Response 204 (Inr []))))) =
     Resolved (Response 204 (Inr [])) \<and>
   status (Response 204 (Inr [])) = 204 \<and>
   statusCode (fst (handler \<lparr>GITHUB_TOKEN = Some ''ghp_token''\<rparr>
       \<lparr>req_method = ''POST'', req_headers = []\<rparr> fresh_response
       (idle_network (Resolved (Response 204 (Inr [])))))) = 200 \<and>
   body (fst (handler \<lparr>GITHUB_TOKEN = Some ''ghp_token''\<rparr>
       \<lparr>req_method = ''POST'', req_headers = []\<rparr> fresh_response
       (idle_network (Resolved (Response 204 (Inr [])))))) =
     Some (JObject [(''success'', JBool True),
                    (''message'', JString ''Dashboard update triggered!'')])"
proof -
  have h1: "req_method \<lparr>req_method = ''POST'', req_headers = []\<rparr> = ''POST''"
    by simp
  have h2: "GITHUB_TOKEN \<lparr>GITHUB_TOKEN = Some ''ghp_token''\<rparr> = Some ''ghp_token''"
    by simp
  have h3: "''ghp_token'' \<noteq> []"
    by simp
  have h4: "fst (fetch DISPATCH_URL (dispatch_init ''ghp_token'')
                   (idle_network (Resolved (Response 204 (Inr []))))) =
              Resolved (Response 204 (Inr []))"
    by (simp add: fetch_def idle_network_def upstream_always_def)
  have h5: "status (Response 204 (Inr [])) = 204"
    by simp
  from upstream_204_success [OF h1 h2 h3 h4 h5, of fresh_response] h1 h2 h3 h4 h5
  show ?thesis by blast
qed

text \<open>
  C2. For a POST request with a configured token, when the upstream answers with a status
  \<open>S\<close> other than 204 and its body reads as the text \<open>T\<close>, the handler responds with
  status \<open>S\<close> and the body \<open>{error: "GitHub API error: " + T}\<close>.
\<close>

theorem upstream_error_forwarded:
  assumes "req_method req = ''POST''"
    and "GITHUB_TOKEN process_env = Some token"
    and "token \<noteq> []"
    and "fst (fetch DISPATCH_URL (dispatch_init token) net) = Resolved response"
    and "status response = S"
    and "S \<noteq> 204"
    and "text_of response = Inr T"
  shows "statusCode (fst (handler process_env req res net)) = S \<and>
         body (fst (handler process_env req res net)) =
           Some (JObject [(''error'', JString (''GitHub API error: '' @ T))])"
  using assms by (simp add: handler_POST try_catch_other res_defs)

theorem upstream_error_forwarded_witness:
  "req_method \<lparr>req_method = ''POST'', req_headers = []\<rparr> = ''POST'' \<and>
   GITHUB_TOKEN \<lparr>GITHUB_TOKEN = Some ''ghp_token''\<rparr> = Some ''ghp_token'' \<and>
   ''ghp_token'' \<noteq> [] \<and>
   fst (fetch DISPATCH_URL (dispatch_init ''ghp_token'')
          (idle_network (Resolved (Response 422 (Inr ''bad ref''))))) =
     Resolved (Response 422 (Inr ''bad ref'')) \<and>
   status (Response 422 (Inr ''bad ref'')) = 422 \<and>
   (422 :: nat) \<noteq> 204 \<and>
   text_of (Response 422 (Inr ''bad ref'')) = Inr ''bad ref'' \<and>
   statusCode (fst (handler \<lparr>GITHUB_TOKEN = Some ''ghp_token''\<rparr>
       \<lparr>req_method = ''POST'', req_headers = []\<rparr> fresh_response
       (idle_network (Resolved (Response 422 (Inr ''bad ref'')))))) = 422 \<and>
   body (fst (handler \<lparr>GITHUB_TOKEN = Some ''ghp_token''\<rparr>
       \<lparr>req_method = ''POST'', req_headers = []\<rparr> fresh_response
       (idle_network (Resolved (Response 422 (Inr ''bad ref'')))))) =
     Some (JObject [(''error'', JString ''GitHub API error: bad ref'')])"
proof -
  have h1: "req_method \<lparr>req_method = ''POST'', req_headers = []\<rparr> = ''POST''"
    by simp
  have h2: "GITHUB_TOKEN \<lparr>GITHUB_TOKEN = Some ''ghp_token''\<rparr> = Some ''ghp_token''"
    by simp
  have h3: "''ghp_token'' \<noteq> []"
    by simp
  have h4: "fst (fetch DISPATCH_URL (dispatch_init ''ghp_token'')
                   (idle_network (Resolved (Response 422 (Inr ''bad ref''))))) =
              Resolved (Response 422 (Inr ''bad ref''))"
    by (simp add: fetch_def idle_network_def upstream_always_def)
  have h5: "status (Response 422 (Inr ''bad ref'')) = 422"
    by simp
  have h6: "(422 :: nat) \<noteq> 204"
    by simp
  have h7: "text_of (Response 422 (Inr ''bad ref'')) = Inr ''bad ref''"
    by simp
  have msg: "''GitHub API error: '' @ ''bad ref'' = ''GitHub API error: bad ref''"
    by simp
  from upstream_error_forwarded [OF h1 h2 h3 h4 h5 h6 h7, of fresh_response]
    h1 h2 h3 h4 h5 h6 h7
  show ?thesis unfolding msg by blast
qed

text \<open>
  C3. For a POST request with a configured token, when \<open>fetch\<close> itself rejects with an
  error carrying the message \<open>M\<close> (no upstream response was received), the handler
  responds with status 500 and the body \<open>{error: M}\<close>: the \<open>catch\<close> clause turns the
  exception into a finished response, so the invocation returns normally.
\<close>

theorem transport_failure_caught:
  assumes "req_method req = ''POST''"
    and "GITHUB_TOKEN process_env = Some token"
    and "token \<noteq> []"
    and "fst (fetch DISPATCH_URL (dispatch_init token) net) = Rejected (Error M)"
  shows "fst (try_block token (cors res) net) = Some (Error M) \<and>
         statusCode (fst (handler process_env req res net)) = 500 \<and>
         body (fst (handler process_env req res net)) = Some (JObject [(''error'', JString M)]) \<and>
         writableEnded (fst (handler process_env req res net))"
proof -
  have "fst (try_block token (cors res) net) = Some (Error M)"
    using assms(4) by (simp add: try_block_def fetch_def)
  moreover have "fst (handler process_env req res net) =
      res_json (JObject [(''error'', JString M)]) (res_status 500 (cors res))"
    using assms by (simp add: handler_POST try_catch_rejected)
  ultimately show ?thesis by (simp add: res_defs)
qed

theorem transport_failure_caught_witness:
  "req_method \<lparr>req_method = ''POST'', req_headers = []\<rparr> = ''POST'' \<and>
   GITHUB_TOKEN \<lparr>GITHUB_TOKEN = Some ''ghp_token''\<rparr> = Some ''ghp_token'' \<and>
   ''ghp_token'' \<noteq> [] \<and>
   fst (fetch DISPATCH_URL (dispatch_init ''ghp_token'')
          (idle_network (Rejected (Error ''ECONNRESET'')))) =
     Rejected (Error ''ECONNRESET'') \<and>
   fst (try_block ''ghp_token'' (cors fresh_response)
          (idle_network (Rejected (Error ''ECONNRESET'')))) =
     Some (Error ''ECONNRESET'') \<and>
   statusCode (fst (handler \<lparr>GITHUB_TOKEN = Some ''ghp_token''\<rparr>
       \<lparr>req_method = ''POST'', req_headers = []\<rparr> fresh_response
       (idle_network (Rejected (Error ''ECONNRESET''))))) = 500 \<and>
   body (fst (handler \<lparr>GITHUB_TOKEN = Some ''ghp_token''\<rparr>
       \<lparr>req_method = ''POST'', req_headers = []\<rparr> fresh_response
       (idle_network (Rejected (Error ''ECONNRESET''))))) =
     Some (JObject [(''error'', JString ''ECONNRESET'')])"
proof -
  have h1: "req_method \<lparr>req_method = ''POST'', req_headers = []\<rparr> = ''POST''"
    by simp
  have h2: "GITHUB_TOKEN \<lparr>GITHUB_TOKEN = Some ''ghp_token''\<rparr> = Some ''ghp_token''"
    by simp
  have h3: "''ghp_token'' \<noteq> []"
    by simp
  have h4: "fst (fetch DISPATCH_URL (dispatch_init ''ghp_token'')
                   (idle_network (Rejected (Error ''ECONNRESET'')))) =
              Rejected (Error ''ECONNRESET'')"
    by (simp add: fetch_def idle_network_def upstream_always_def)
  from transport_failure_caught [OF h1 h2 h3 h4, of fresh_response] h1 h2 h3 h4
  show ?thesis by blast
qed

text \<open>
  C4. For a POST request, when \<open>GITHUB_TOKEN\<close> is absent from the environment, the
  handler responds with status 500 and the body \<open>{error: "GitHub token not configured"}\<close>
  and issues no outbound call: the network is left as it was.
\<close>

theorem token_absent_guard:
  assumes "req_method req = ''POST''"
    and "GITHUB_TOKEN process_env = None"
  shows "statusCode (fst (handler process_env req res net)) = 500 \<and>
         body (fst (handler process_env req res net)) =
           Some (JObject [(''error'', JString ''GitHub token not configured'')]) \<and>
         snd (handler process_env req res net) = net"
  using assms by (simp add: handler_no_token res_defs)

theorem token_absent_guard_witness:
  "req_method \<lparr>req_method = ''POST'', req_headers = []\<rparr> = ''POST'' \<and>
   GITHUB_TOKEN \<lparr>GITHUB_TOKEN = None\<rparr> = None \<and>
   statusCode (fst (handler \<lparr>GITHUB_TOKEN = None\<rparr>
       \<lparr>req_method = ''POST'', req_headers = []\<rparr> fresh_response
       (idle_network (Resolved (Response 204 (Inr [])))))) = 500 \<and>
   body (fst (handler \<lparr>GITHUB_TOKEN = None\<rparr>
       \<lparr>req_method = ''POST'', req_headers = []\<rparr> fresh_response
       (idle_network (Resolved (Response 204 (Inr [])))))) =
     Some (JObject [(''error'', JString ''GitHub token not configured'')]) \<and>
   snd (handler \<lparr>GITHUB_TOKEN = None\<rparr>
       \<lparr>req_method = ''POST'', req_headers = []\<rparr> fresh_response
       (idle_network (Resolved (Response 204 (Inr []))))) =
     idle_network (Resolved (Response 204 (Inr [])))"
proof -
  have h1: "req_method \<lparr>req_method = ''POST'', req_headers = []\<rparr> = ''POST''"
    by simp
  have h2: "GITHUB_TOKEN \<lparr>GITHUB_TOKEN = None\<rparr> = None"
    by simp
  from token_absent_guard [OF h1 h2, of fresh_response
      "idle_network (Resolved (Response 204 (Inr [])))"] h1 h2
  show ?thesis by blast
qed

text \<open>
  C5. For a request whose method is neither OPTIONS nor POST, the handler responds with
  status 405 and the body \<open>{error: "Method not allowed"}\<close>. The token is not consulted
  (the outcome is the same under every environment) and no outbound call is issued (the
  network is left as it was).
\<close>

theorem method_not_allowed:
  assumes "req_method req \<noteq> ''OPTIONS''"
    and "req_method req \<noteq> ''POST''"
  shows "statusCode (fst (handler process_env req res net)) = 405 \<and>
         body (fst (handler process_env req res net)) =
           Some (JObject [(''error'', JString ''Method not allowed'')]) \<and>
         snd (handler process_env req res net) = net \<and>
         handler process_env req res net = handler process_env' req res net"
  using assms by (simp add: handler_not_allowed res_defs)

theorem method_not_allowed_witness:
  "req_method \<lparr>req_method = ''GET'', req_headers = []\<rparr> \<noteq> ''OPTIONS'' \<and>
   req_method \<lparr>req_method = ''GET'', req_headers = []\<rparr> \<noteq> ''POST'' \<and>
   statusCode (fst (handler \<lparr>GITHUB_TOKEN = Some ''ghp_token''\<rparr>
       \<lparr>req_method = ''GET'', req_headers = []\<rparr> fresh_response
       (idle_network (Resolved (Response 204 (Inr [])))))) = 405 \<and>
   body (fst (handler \<lparr>GITHUB_TOKEN = Some ''ghp_token''\<rparr>
       \<lparr>req_method = ''GET'', req_headers = []\<rparr> fresh_response
       (idle_network (Resolved (Response 204 (Inr [])))))) =
     Some (JObject [(''error'', JString ''Method not allowed'')]) \<and>
   snd (handler \<lparr>GITHUB_TOKEN = Some ''ghp_token''\<rparr>
       \<lparr>req_method = ''GET'', req_headers = []\<rparr> fresh_response
       (idle_network (Resolved (Response 204 (Inr []))))) =
     idle_network (Resolved (Response 204 (Inr []))) \<and>
   handler \<lparr>GITHUB_TOKEN = Some ''ghp_token''\<rparr>
       \<lparr>req_method = ''GET'', req_headers = []\<rparr> fresh_response
       (idle_network (Resolved (Response 204 (Inr [])))) =
     handler \<lparr>GITHUB_TOKEN = None\<rparr>
       \<lparr>req_method = ''GET'', req_headers = []\<rparr> fresh_response
       (idle_network (Resolved (Response 204 (Inr []))))"
proof -
  have h1: "req_method \<lparr>req_method = ''GET'', req_headers = []\<rparr> \<noteq> ''OPTIONS''"
    by simp
  have h2: "req_method \<lparr>req_method = ''GET'', req_headers = []\<rparr> \<noteq> ''POST''"
    by simp
  from method_not_allowed [OF h1 h2, of "\<lparr>GITHUB_TOKEN = Some ''ghp_token''\<rparr>"
      fresh_response "idle_network (Resolved (Response 204 (Inr [])))"
      "\<lparr>GITHUB_TOKEN = None\<rparr>"] h1 h2
  show ?thesis by blast
qed

text \<open>
  C6. For a request with method OPTIONS, the handler ends the response at once with status
  200 and without a body (nothing has been written to the response the runtime hands
  over), the three CORS headers being set, whatever the environment holds and without an
  outbound call.
\<close>

theorem preflight_short_circuit:
  assumes "req_method req = ''OPTIONS''"
    and "body res = None"
  shows "statusCode (fst (handler process_env req res net)) = 200 \<and>
         body (fst (handler process_env req res net)) = None \<and>
         writableEnded (fst (handler process_env req res net)) \<and>
         res_headers (fst (handler process_env req res net)) ''Access-Control-Allow-Origin'' =
           Some ''*'' \<and>
         res_headers (fst (handler process_env req res net)) ''Access-Control-Allow-Methods'' =
           Some ''POST, OPTIONS'' \<and>
         res_headers (fst (handler process_env req res net)) ''Access-Control-Allow-Headers'' =
           Some ''Content-Type'' \<and>
         snd (handler process_env req res net) = net \<and>
         handler process_env req res net = handler process_env' req res net"
  using assms by (simp add: handler_OPTIONS cors_def res_defs)

theorem preflight_short_circuit_witness:
  "req_method \<lparr>req_method = ''OPTIONS'', req_headers = []\<rparr> = ''OPTIONS'' \<and>
   body fresh_response = None \<and>
   statusCode (fst (handler \<lparr>GITHUB_TOKEN = None\<rparr>
       \<lparr>req_method = ''OPTIONS'', req_headers = []\<rparr> fresh_response
       (idle_network (Resolved (Response 204 (Inr [])))))) = 200 \<and>
   body (fst (handler \<lparr>GITHUB_TOKEN = None\<rparr>
       \<lparr>req_method = ''OPTIONS'', req_headers = []\<rparr> fresh_response
       (idle_network (Resolved (Response 204 (Inr [])))))) = None \<and>
   res_headers (fst (handler \<lparr>GITHUB_TOKEN = None\<rparr>
       \<lparr>req_method = ''OPTIONS'', req_headers = []\<rparr> fresh_response
       (idle_network (Resolved (Response 204 (Inr []))))))
     ''Access-Control-Allow-Origin'' = Some ''*'' \<and>
   snd (handler \<lparr>GITHUB_TOKEN = None\<rparr>
       \<lparr>req_method = ''OPTIONS'', req_headers = []\<rparr> fresh_response
       (idle_network (Resolved (Response 204 (Inr []))))) =
     idle_network (Resolved (Response 204 (Inr [])))"
proof -
  have h1: "req_method \<lparr>req_method = ''OPTIONS'', req_headers = []\<rparr> = ''OPTIONS''"
    by simp
  have h2: "body fresh_response = None"
    by (simp add: fresh_response_def)
  from preflight_short_circuit [OF h1 h2, of "\<lparr>GITHUB_TOKEN = None\<rparr>"
      "idle_network (Resolved (Response 204 (Inr [])))"] h1 h2
  show ?thesis by blast
qed

text \<open>
  C7. Every response of the handler carries the three headers
  \<open>Access-Control-Allow-Origin: *\<close>, \<open>Access-Control-Allow-Methods: POST, OPTIONS\<close> and
  \<open>Access-Control-Allow-Headers: Content-Type\<close>: for every environment, request, response
  object and network, whichever branch is taken.
\<close>

theorem cors_headers_always:
  "res_headers (fst (handler process_env req res net)) ''Access-Control-Allow-Origin'' =
     Some ''*'' \<and>
   res_headers (fst (handler process_env req res net)) ''Access-Control-Allow-Methods'' =
     Some ''POST, OPTIONS'' \<and>
   res_headers (fst (handler process_env req res net)) ''Access-Control-Allow-Headers'' =
     Some ''Content-Type''"
  by (simp add: handler_headers cors_def setHeader_def)

text \<open>
  C8. For a POST request with the configured token \<open>T\<close>, the handler issues exactly one
  outbound call: a POST to the fixed workflow-dispatch URL, with the header
  \<open>Authorization: Bearer T\<close>, the header \<open>Accept: application/vnd.github.v3+json\<close>, and
  the JSON text of \<open>{ref: "main"}\<close> as body. Nothing of the call but the token varies:
  the URL and the branch come from no field of the inbound request.
\<close>

theorem dispatch_call_fixed:
  assumes "req_method req = ''POST''"
    and "GITHUB_TOKEN process_env = Some T"
    and "T \<noteq> []"
  shows "sent (snd (handler process_env req res net)) =
     sent net @
     [(''https://api.github.com/repos/mclendaniel/chess-dashboard/actions/workflows/update-dashboard.yml/dispatches'',
       \<lparr>init_method = ''POST'',
        init_headers =
          [(''Authorization'', ''Bearer '' @ T),
           (''Accept'', ''application/vnd.github.v3+json''),
           (''Content-Type'', ''application/json'')],
        init_body = JSON_stringify (JObject [(''ref'', JString ''main'')])\<rparr>)]"
proof -
  have "snd (handler process_env req res net) = snd (try_catch T (cors res) net)"
    using assms by (simp add: handler_POST)
  then show ?thesis
    by (simp add: try_catch_network DISPATCH_URL_def dispatch_init_def)
qed

theorem dispatch_call_fixed_witness:
  "req_method \<lparr>req_method = ''POST'', req_headers = [(''X-Ref'', ''dev'')]\<rparr> = ''POST'' \<and>
   GITHUB_TOKEN \<lparr>GITHUB_TOKEN = Some ''ghp_token''\<rparr> = Some ''ghp_token'' \<and>
   ''ghp_token'' \<noteq> [] \<and>
   sent (snd (handler \<lparr>GITHUB_TOKEN = Some ''ghp_token''\<rparr>
       \<lparr>req_method = ''POST'', req_headers = [(''X-Ref'', ''dev'')]\<rparr> fresh_response
       (idle_network (Resolved (Response 204 (Inr [])))))) =
     [(''https://api.github.com/repos/mclendaniel/chess-dashboard/actions/workflows/update-dashboard.yml/dispatches'',
       \<lparr>init_method = ''POST'',
        init_headers =
          [(''Authorization'', ''Bearer ghp_token''),
           (''Accept'', ''application/vnd.github.v3+json''),
           (''Content-Type'', ''application/json'')],
        init_body =
          ''{'' @ [CHR 0x22] @ ''ref'' @ [CHR 0x22] @ '':'' @ [CHR 0x22] @ ''main'' @
          [CHR 0x22] @ ''}''\<rparr>)]"
proof -
  have h1: "req_method \<lparr>req_method = ''POST'', req_headers = [(''X-Ref'', ''dev'')]\<rparr> = ''POST''"
    by simp
  have h2: "GITHUB_TOKEN \<lparr>GITHUB_TOKEN = Some ''ghp_token''\<rparr> = Some ''ghp_token''"
    by simp
  have h3: "''ghp_token'' \<noteq> []"
    by simp
  have nothing_sent: "sent (idle_network (Resolved (Response 204 (Inr [])))) = []"
    by (simp add: idle_network_def)
  have bearer: "''Bearer '' @ ''ghp_token'' = ''Bearer ghp_token''"
    by simp
  from dispatch_call_fixed [OF h1 h2 h3, of fresh_response
      "idle_network (Resolved (Response 204 (Inr [])))"] h1 h2 h3
  show ?thesis
    unfolding nothing_sent bearer dispatch_body_text append_Nil by blast
qed

text \<open>
  C9, as amended. An invocation issues exactly one outbound call, whatever the upstream
  does with it (no retry), when the method is POST and the token is a non-empty string, and
  no outbound call otherwise. Two POST invocations in sequence, the token configured, issue
  two calls: the second dispatches again.
\<close>

theorem one_call_per_dispatch:
  "length (sent (snd (handler process_env req res net))) =
     length (sent net) + (if dispatches process_env req then 1 else 0) \<and>
   (dispatches process_env req \<and> dispatches process_env req' \<longrightarrow>
      length (sent (snd (handler process_env req' res'
                           (snd (handler process_env req res net))))) =
        length (sent net) + 2)"
  by (simp add: handler_sent_length)

theorem one_call_per_dispatch_witness:
  "dispatches \<lparr>GITHUB_TOKEN = Some ''ghp_token''\<rparr> \<lparr>req_method = ''POST'', req_headers = []\<rparr> \<and>
   length (sent (snd (handler \<lparr>GITHUB_TOKEN = Some ''ghp_token''\<rparr>
       \<lparr>req_method = ''POST'', req_headers = []\<rparr> fresh_response
       (idle_network (Rejected (Error ''ECONNRESET'')))))) = 1 \<and>
   length (sent (snd (handler \<lparr>GITHUB_TOKEN = Some ''ghp_token''\<rparr>
       \<lparr>req_method = ''POST'', req_headers = []\<rparr> fresh_response
       (snd (handler \<lparr>GITHUB_TOKEN = Some ''ghp_token''\<rparr>
          \<lparr>req_method = ''POST'', req_headers = []\<rparr> fresh_response
          (idle_network (Rejected (Error ''ECONNRESET'')))))))) = 2"
proof -
  have h: "dispatches \<lparr>GITHUB_TOKEN = Some ''ghp_token''\<rparr>
             \<lparr>req_method = ''POST'', req_headers = []\<rparr>"
    by (simp add: dispatches_def)
  have nothing_sent: "length (sent (idle_network (Rejected (Error ''ECONNRESET'')))) = 0"
    by (simp add: idle_network_def)
  from one_call_per_dispatch [of "\<lparr>GITHUB_TOKEN = Some ''ghp_token''\<rparr>"
      "\<lparr>req_method = ''POST'', req_headers = []\<rparr>" fresh_response
      "idle_network (Rejected (Error ''ECONNRESET''))"
      "\<lparr>req_method = ''POST'', req_headers = []\<rparr>" fresh_response] h
  show ?thesis
    unfolding nothing_sent by simp
qed

text \<open>
  C9, as stated, fails: an OPTIONS request is an invocation that issues no outbound call,
  so the number of calls of that invocation is not one.
\<close>

theorem one_call_every_invocation_counterexample:
  "length (sent (snd (handler \<lparr>GITHUB_TOKEN = Some ''ghp_token''\<rparr>
       \<lparr>req_method = ''OPTIONS'', req_headers = []\<rparr> fresh_response
       (idle_network (Resolved (Response 204 (Inr [])))))))
   \<noteq> length (sent (idle_network (Resolved (Response 204 (Inr []))))) + 1"
  by (simp add: handler_OPTIONS)

text \<open>
  C10. For a POST request, when \<open>GITHUB_TOKEN\<close> is the empty string, the handler treats
  the token as absent: status 500, the body \<open>{error: "GitHub token not configured"}\<close>, and
  no outbound call.
\<close>

theorem empty_token_is_absent:
  assumes "req_method req = ''POST''"
    and "GITHUB_TOKEN process_env = Some []"
  shows "statusCode (fst (handler process_env req res net)) = 500 \<and>
         body (fst (handler process_env req res net)) =
           Some (JObject [(''error'', JString ''GitHub token not configured'')]) \<and>
         snd (handler process_env req res net) = net"
  using assms by (simp add: handler_no_token res_defs)

theorem empty_token_is_absent_witness:
  "req_method \<lparr>req_method = ''POST'', req_headers = []\<rparr> = ''POST'' \<and>
   GITHUB_TOKEN \<lparr>GITHUB_TOKEN = Some []\<rparr> = Some [] \<and>
   statusCode (fst (handler \<lparr>GITHUB_TOKEN = Some []\<rparr>
       \<lparr>req_method = ''POST'', req_headers = []\<rparr> fresh_response
       (idle_network (Resolved (Response 204 (Inr [])))))) = 500 \<and>
   body (fst (handler \<lparr>GITHUB_TOKEN = Some []\<rparr>
       \<lparr>req_method = ''POST'', req_headers = []\<rparr> fresh_response
       (idle_network (Resolved (Response 204 (Inr [])))))) =
     Some (JObject [(''error'', JString ''GitHub token not configured'')]) \<and>
   snd (handler \<lparr>GITHUB_TOKEN = Some []\<rparr>
       \<lparr>req_method = ''POST'', req_headers = []\<rparr> fresh_response
       (idle_network (Resolved (Response 204 (Inr []))))) =
     idle_network (Resolved (Response 204 (Inr [])))"
proof -
  have h1: "req_method \<lparr>req_method = ''POST'', req_headers = []\<rparr> = ''POST''"
    by simp
  have h2: "GITHUB_TOKEN \<lparr>GITHUB_TOKEN = Some []\<rparr> = Some []"
    by simp
  from empty_token_is_absent [OF h1 h2, of fresh_response
      "idle_network (Resolved (Response 204 (Inr [])))"] h1 h2
  show ?thesis by blast
qed

end
